theory Spec2Isabelle
  imports Main "HOL-Library.Word" "HOL-Library.Multiset"
begin

unbundle bit_operations_syntax

section \<open>Python values used by the audit tools\<close>

text \<open>
  A Python \<open>bytes\<close> object is a list of 8-bit words. A Python \<open>str\<close> is a \<open>string\<close>
  holding its UTF-8 bytes, so that \<open>.encode()\<close> keeps the bytes and concatenation of
  strings is concatenation of their encodings. Python integers are unbounded: \<open>int\<close>.
\<close>

type_synonym byte = "8 word"
type_synonym bytes = "byte list"
type_synonym u32 = "32 word"

definition encode :: "string \<Rightarrow> bytes" where
  "encode s = map of_char s"

subsection \<open>\<open>hashlib.sha256\<close> (FIPS 180-4)\<close>

definition rotr :: "nat \<Rightarrow> u32 \<Rightarrow> u32" where
  "rotr n x = drop_bit n x OR push_bit (32 - n) x"

definition K256 :: "u32 list" where
  "K256 = [
   0x428A2F98, 0x71374491, 0xB5C0FBCF, 0xE9B5DBA5,
   0x3956C25B, 0x59F111F1, 0x923F82A4, 0xAB1C5ED5,
   0xD807AA98, 0x12835B01, 0x243185BE, 0x550C7DC3,
   0x72BE5D74, 0x80DEB1FE, 0x9BDC06A7, 0xC19BF174,
   0xE49B69C1, 0xEFBE4786, 0x0FC19DC6, 0x240CA1CC,
   0x2DE92C6F, 0x4A7484AA, 0x5CB0A9DC, 0x76F988DA,
   0x983E5152, 0xA831C66D, 0xB00327C8, 0xBF597FC7,
   0xC6E00BF3, 0xD5A79147, 0x06CA6351, 0x14292967,
   0x27B70A85, 0x2E1B2138, 0x4D2C6DFC, 0x53380D13,
   0x650A7354, 0x766A0ABB, 0x81C2C92E, 0x92722C85,
   0xA2BFE8A1, 0xA81A664B, 0xC24B8B70, 0xC76C51A3,
   0xD192E819, 0xD6990624, 0xF40E3585, 0x106AA070,
   0x19A4C116, 0x1E376C08, 0x2748774C, 0x34B0BCB5,
   0x391C0CB3, 0x4ED8AA4A, 0x5B9CCA4F, 0x682E6FF3,
   0x748F82EE, 0x78A5636F, 0x84C87814, 0x8CC70208,
   0x90BEFFFA, 0xA4506CEB, 0xBEF9A3F7, 0xC67178F2]"

definition H256 :: "u32 list" where
  "H256 = [0x6A09E667, 0xBB67AE85, 0x3C6EF372, 0xA54FF53A,
           0x510E527F, 0x9B05688C, 0x1F83D9AB, 0x5BE0CD19]"

fun be32 :: "bytes \<Rightarrow> u32 list" where
  "be32 (a # b # c # d # bs) =
     (push_bit 24 (ucast a) OR push_bit 16 (ucast b) OR push_bit 8 (ucast c) OR ucast d) # be32 bs"
| "be32 _ = []"

definition bytes_of_u32 :: "u32 \<Rightarrow> bytes" where
  "bytes_of_u32 w = [ucast (drop_bit 24 w), ucast (drop_bit 16 w), ucast (drop_bit 8 w), ucast w]"

definition bytes_of_u64 :: "64 word \<Rightarrow> bytes" where
  "bytes_of_u64 w = map (\<lambda>i. ucast (drop_bit (8 * i) w)) [7, 6, 5, 4, 3, 2, 1, 0]"

definition pad :: "bytes \<Rightarrow> bytes" where
  "pad m = m @ [0x80] @ replicate ((119 - length m mod 64) mod 64) 0
             @ bytes_of_u64 (word_of_nat (8 * length m))"

definition ssig0 :: "u32 \<Rightarrow> u32" where
  "ssig0 x = rotr 7 x XOR rotr 18 x XOR drop_bit 3 x"

definition ssig1 :: "u32 \<Rightarrow> u32" where
  "ssig1 x = rotr 17 x XOR rotr 19 x XOR drop_bit 10 x"

definition bsig0 :: "u32 \<Rightarrow> u32" where
  "bsig0 x = rotr 2 x XOR rotr 13 x XOR rotr 22 x"

definition bsig1 :: "u32 \<Rightarrow> u32" where
  "bsig1 x = rotr 6 x XOR rotr 11 x XOR rotr 25 x"

definition ch :: "u32 \<Rightarrow> u32 \<Rightarrow> u32 \<Rightarrow> u32" where
  "ch x y z = (x AND y) XOR (NOT x AND z)"

definition maj :: "u32 \<Rightarrow> u32 \<Rightarrow> u32 \<Rightarrow> u32" where
  "maj x y z = (x AND y) XOR (x AND z) XOR (y AND z)"

text \<open>The message schedule, newest word first: \<open>ws = [W(t-1), W(t-2), ...]\<close>.\<close>

fun schedule :: "nat \<Rightarrow> u32 list \<Rightarrow> u32 list" where
  "schedule 0 ws = ws"
| "schedule (Suc n) ws =
     schedule n ((ssig1 (ws ! 1) + ws ! 6 + ssig0 (ws ! 14) + ws ! 15) # ws)"

fun rounds :: "u32 list \<Rightarrow> u32 list \<Rightarrow> u32 list \<Rightarrow> u32 list" where
  "rounds (k # ks) (w # ws) [a, b, c, d, e, f, g, h] =
     (let t1 = h + bsig1 e + ch e f g + k + w;
          t2 = bsig0 a + maj a b c
      in rounds ks ws [t1 + t2, a, b, c, d + t1, e, f, g])"
| "rounds _ _ s = s"

definition compress :: "u32 list \<Rightarrow> u32 list \<Rightarrow> u32 list" where
  "compress h blk = map2 (+) h (rounds K256 (rev (schedule 48 (rev blk))) h)"

fun blocks :: "nat \<Rightarrow> u32 list \<Rightarrow> u32 list \<Rightarrow> u32 list" where
  "blocks 0 h ws = h"
| "blocks (Suc n) h ws = blocks n (compress h (take 16 ws)) (drop 16 ws)"

definition sha256 :: "bytes \<Rightarrow> bytes" where
  "sha256 m = (let ws = be32 (pad m)
               in concat (map bytes_of_u32 (blocks (length ws div 16) H256 ws)))"

subsection \<open>Rendering: \<open>str(int)\<close>, \<open>bytes.hex()\<close>, \<open>repr(bytes)\<close>\<close>

definition digit_chars :: string where
  "digit_chars = ''0123456789abcdef''"

function str_nat :: "nat \<Rightarrow> string" where
  "str_nat n = (if n < 10 then [digit_chars ! n]
                else str_nat (n div 10) @ [digit_chars ! (n mod 10)])"
  by pat_completeness auto
termination
  by (relation "measure id") auto

definition str_int :: "int \<Rightarrow> string" where
  "str_int i = (if i < 0 then CHR ''-'' # str_nat (nat (- i)) else str_nat (nat i))"

definition hex_byte :: "byte \<Rightarrow> string" where
  "hex_byte b = [digit_chars ! (unat b div 16), digit_chars ! (unat b mod 16)]"

definition hex :: "bytes \<Rightarrow> string" where
  "hex bs = concat (map hex_byte bs)"

text \<open>
  \<open>repr\<close> of a bytes object, which is what an f-string writes for it. The quote is
  \<open>'\<close> unless the bytes hold \<open>'\<close> and no \<open>"\<close>; the quote and the backslash are escaped,
  tab, newline and carriage return have their letters, the other bytes outside
  \<open>0x20..0x7e\<close> are written \<open>\xNN\<close>.
\<close>

definition repr_byte :: "byte \<Rightarrow> byte \<Rightarrow> string" where
  "repr_byte quote c =
     (if c = quote \<or> c = 0x5C then [CHR 0x5C, char_of (unat c)]
      else if c = 0x09 then [CHR 0x5C, CHR ''t'']
      else if c = 0x0A then [CHR 0x5C, CHR ''n'']
      else if c = 0x0D then [CHR 0x5C, CHR ''r'']
      else if c < 0x20 \<or> 0x7F \<le> c then [CHR 0x5C, CHR ''x''] @ hex_byte c
      else [char_of (unat c)])"

definition bytes_repr :: "bytes \<Rightarrow> string" where
  "bytes_repr bs =
     (let quote = (if 0x27 \<in> set bs \<and> 0x22 \<notin> set bs then 0x22 else 0x27)
      in [CHR ''b'', char_of (unat quote)] @ concat (map (repr_byte quote) bs) @ [char_of (unat quote)])"

section \<open>\<open>determinism_audit.py\<close>: class \<open>DeterminismAuditor\<close>\<close>

text \<open>
  A row of \<open>input_events\<close>. The payload is kept as the text the f-string writes for it;
  \<open>created_at\<close> is selected but never read.
\<close>

record event =
  tick :: int
  event_type :: string
  payload :: string

text \<open>A row of \<open>hash_checkpoints\<close>; only \<open>tick\<close> and \<open>world_hash\<close> are read.\<close>

record checkpoint =
  cp_tick :: int
  world_hash :: bytes
  prev_hash :: "bytes option"
  verified :: bool

record auditor =
  db_url :: string
  seed :: int
  connected :: bool

text \<open>The dictionary \<open>universe_state\<close>; \<open>agents\<close> stays empty and is left out.\<close>

record universe =
  u_tick :: int
  u_world_hash :: bytes
  rng_state :: bytes

type_synonym trajectory = "(int \<times> string) list"

definition apply_event :: "universe \<Rightarrow> event \<Rightarrow> universe \<times> (int \<times> string)" where
  "apply_event u e =
     (let event_hash = sha256 (encode (str_int (tick e) @ event_type e @ payload e
                                        @ bytes_repr (rng_state u)));
          rng = sha256 (rng_state u @ encode ''tick'')
      in (\<lparr>u_tick = tick e, u_world_hash = event_hash, rng_state = rng\<rparr>,
          (tick e, hex event_hash)))"

fun replay_loop :: "universe \<Rightarrow> trajectory \<Rightarrow> event list \<Rightarrow> universe \<times> trajectory" where
  "replay_loop u replay_hashes [] = (u, replay_hashes)"
| "replay_loop u replay_hashes (e # es) =
     (case apply_event u e of (u', entry) \<Rightarrow> replay_loop u' (replay_hashes @ [entry]) es)"

definition initial_universe :: "auditor \<Rightarrow> universe" where
  "initial_universe a =
     \<lparr>u_tick = 0, u_world_hash = sha256 (encode ''genesis''),
      rng_state = sha256 (encode (str_int (seed a)))\<rparr>"

definition replay_deterministically :: "auditor \<Rightarrow> event list \<Rightarrow> trajectory" where
  "replay_deterministically a events = snd (replay_loop (initial_universe a) [] events)"

datatype divergence_type = hash_mismatch | missing_hash

record divergence =
  d_tick :: int
  db_hash :: string
  replay_hash :: "string option"
  d_type :: divergence_type

text \<open>The dict comprehension over \<open>replay_hashes\<close>: a later pair overwrites an earlier one.\<close>

definition replay_hash_dict :: "trajectory \<Rightarrow> (int \<rightharpoonup> string)" where
  "replay_hash_dict replay_hashes = foldl (\<lambda>m (t, h). m(t \<mapsto> h)) Map.empty replay_hashes"

definition check_checkpoint :: "(int \<rightharpoonup> string) \<Rightarrow> checkpoint \<Rightarrow> divergence list" where
  "check_checkpoint d c =
     (case d (cp_tick c) of
        Some rh \<Rightarrow>
          (if hex (world_hash c) \<noteq> rh
           then [\<lparr>d_tick = cp_tick c, db_hash = hex (world_hash c),
                  replay_hash = Some rh, d_type = hash_mismatch\<rparr>]
           else [])
      | None \<Rightarrow>
          [\<lparr>d_tick = cp_tick c, db_hash = hex (world_hash c),
            replay_hash = None, d_type = missing_hash\<rparr>])"

fun collect_divergences ::
  "(int \<rightharpoonup> string) \<Rightarrow> divergence list \<Rightarrow> checkpoint list \<Rightarrow> divergence list" where
  "collect_divergences d divergences [] = divergences"
| "collect_divergences d divergences (c # cs) =
     collect_divergences d (divergences @ check_checkpoint d c) cs"

definition verify_hash_chain :: "checkpoint list \<Rightarrow> trajectory \<Rightarrow> bool \<times> divergence list" where
  "verify_hash_chain db_checkpoints replay_hashes =
     (let divergences = collect_divergences (replay_hash_dict replay_hashes) [] db_checkpoints
      in if divergences \<noteq> [] then (False, divergences) else (True, []))"

text \<open>
  The \<open>verification_result\<close> entry of the report built by \<open>generate_report\<close>; the
  metadata and summary entries hold timestamps and table sizes read from the database.
\<close>

record verification_report =
  status :: string
  divergences_count :: nat
  first_divergence_tick :: "int option"

definition generate_report :: "bool \<Rightarrow> divergence list \<Rightarrow> verification_report" where
  "generate_report verification_result divergences =
     \<lparr>status = (if verification_result then ''PASS'' else ''FAIL''),
      divergences_count = length divergences,
      first_divergence_tick =
        (case divergences of [] \<Rightarrow> None | d # _ \<Rightarrow> Some (d_tick d))\<rparr>"

text \<open>
  The random state before the event at position \<open>i\<close>, started from \<open>r\<close>, and the entry
  emitted for an event under a given random state.
\<close>

primrec rng_iter :: "bytes \<Rightarrow> nat \<Rightarrow> bytes" where
  "rng_iter r 0 = r"
| "rng_iter r (Suc i) = sha256 (rng_iter r i @ encode ''tick'')"

definition entry_at :: "bytes \<Rightarrow> event \<Rightarrow> int \<times> string" where
  "entry_at r e =
     (tick e, hex (sha256 (encode (str_int (tick e) @ event_type e @ payload e @ bytes_repr r))))"

subsection \<open>The recurrence of the specification\<close>

text \<open>
  The recurrence as the specification words it, with the rendering of the code: the hash
  state starts as the digest of the seed, and the digest emitted for an event becomes the
  hash state of the next one.
\<close>

fun reference_loop :: "bytes \<Rightarrow> event list \<Rightarrow> trajectory" where
  "reference_loop hash_state [] = []"
| "reference_loop hash_state (e # es) =
     (let d = sha256 (encode (str_int (tick e) @ event_type e @ payload e
                               @ bytes_repr hash_state))
      in (tick e, hex d) # reference_loop d es)"

definition reference_trajectory :: "int \<Rightarrow> event list \<Rightarrow> trajectory" where
  "reference_trajectory s events = reference_loop (sha256 (encode (str_int s))) events"

section \<open>\<open>replay_audit.py\<close>: class \<open>ReplayAudit\<close>\<close>

datatype py_error = KeyError string

text \<open>
  An object of the events file. \<open>None\<close> is an absent key: \<open>e['tick']\<close> raises
  \<open>KeyError\<close> then, \<open>e.get(k, '')\<close> gives the empty string.
\<close>

record audit_event =
  ev_tick :: "int option"
  ev_hash :: "string option"
  ev_prev_hash :: "string option"

record replay_audit =
  ra_seed :: int
  events_file :: string
  events :: "audit_event list"
  hash_trajectory :: "(int \<times> string) list"
  divergence_point :: "nat option"
  audit_result :: string

definition get_str :: "string option \<Rightarrow> string" where
  "get_str v = (case v of None \<Rightarrow> [] | Some s \<Rightarrow> s)"

text \<open>\<open>len([e for e in self.events if e['tick'] <= tick])\<close>\<close>

fun count_events_upto :: "audit_event list \<Rightarrow> int \<Rightarrow> py_error + nat" where
  "count_events_upto [] t = Inr 0"
| "count_events_upto (e # es) t =
     (case ev_tick e of
        None \<Rightarrow> Inl (KeyError ''tick'')
      | Some k \<Rightarrow>
          (case count_events_upto es t of
             Inl err \<Rightarrow> Inl err
           | Inr n \<Rightarrow> Inr (if k \<le> t then Suc n else n)))"

definition simulate_universe_state :: "replay_audit \<Rightarrow> int \<Rightarrow> py_error + string" where
  "simulate_universe_state ra t =
     (case count_events_upto (events ra) t of
        Inl err \<Rightarrow> Inl err
      | Inr n \<Rightarrow>
          Inr (hex (sha256 (encode (str_int (ra_seed ra) @ '':'' @ str_int t @ '':''
                                     @ str_nat n)))))"

fun simulate_ticks :: "replay_audit \<Rightarrow> int list \<Rightarrow> py_error + string list" where
  "simulate_ticks ra [] = Inr []"
| "simulate_ticks ra (t # ts) =
     (case simulate_universe_state ra t of
        Inl err \<Rightarrow> Inl err
      | Inr h \<Rightarrow>
          (case simulate_ticks ra ts of
             Inl err \<Rightarrow> Inl err
           | Inr hs \<Rightarrow> Inr (h # hs)))"

definition run_replay :: "replay_audit \<Rightarrow> py_error + bool \<times> replay_audit" where
  "run_replay ra =
     (case simulate_ticks ra [0..100] of
        Inl err \<Rightarrow> Inl err
      | Inr hs \<Rightarrow> Inr (True, ra\<lparr>hash_trajectory := hash_trajectory ra @ zip [0..100] hs\<rparr>))"

fun first_difference :: "nat \<Rightarrow> (string \<times> string) list \<Rightarrow> nat option" where
  "first_difference i [] = None"
| "first_difference i ((h1, h2) # hs) =
     (if h1 \<noteq> h2 then Some i else first_difference (Suc i) hs)"

definition verify_hash_stability :: "replay_audit \<Rightarrow> py_error + bool \<times> replay_audit" where
  "verify_hash_stability ra =
     (case simulate_ticks ra [0..100] of
        Inl err \<Rightarrow> Inl err
      | Inr hash_trajectory_1 \<Rightarrow>
          (case simulate_ticks ra [0..100] of
             Inl err \<Rightarrow> Inl err
           | Inr hash_trajectory_2 \<Rightarrow>
               (case first_difference 0 (zip hash_trajectory_1 hash_trajectory_2) of
                  Some i \<Rightarrow> Inr (False, ra\<lparr>divergence_point := Some i, audit_result := ''FAIL''\<rparr>)
                | None \<Rightarrow> Inr (True, ra))))"

text \<open>
  What \<open>ReplayAudit.verify_hash_chain\<close> prints: that the chain is verified, or the tick
  of the break (\<open>None\<close> is printed as \<open>?\<close>) with the first 16 characters of the expected
  and of the found \<open>prev_hash\<close>.
\<close>

datatype chain_report = Chain_verified | Chain_broken "int option" string string

fun chain_scan :: "string \<Rightarrow> audit_event list \<Rightarrow> chain_report" where
  "chain_scan prev [] = Chain_verified"
| "chain_scan prev (e # es) =
     (let event_hash = get_str (ev_hash e);
          event_prev_hash = get_str (ev_prev_hash e)
      in if event_prev_hash \<noteq> [] \<and> event_prev_hash \<noteq> prev
         then Chain_broken (ev_tick e) (take 16 prev) (take 16 event_prev_hash)
         else chain_scan event_hash es)"

text \<open>
  \<open>ReplayAudit.verify_hash_chain\<close>; the name \<open>verify_hash_chain\<close> is the comparator of
  \<open>DeterminismAuditor\<close> above.
\<close>

definition chain_verify_hash_chain :: "replay_audit \<Rightarrow> bool \<times> replay_audit \<times> chain_report" where
  "chain_verify_hash_chain ra =
     (case chain_scan (replicate 64 CHR ''0'') (events ra) of
        Chain_verified \<Rightarrow> (True, ra, Chain_verified)
      | Chain_broken t x f \<Rightarrow> (False, ra\<lparr>audit_result := ''FAIL''\<rparr>, Chain_broken t x f))"

text \<open>
  A checkpoint sequence built with \<open>prev_hash[i] = hash[i-1]\<close> for \<open>i > 0\<close> and an empty
  \<open>prev_hash\<close> at the genesis.
\<close>

fun links_from :: "string \<Rightarrow> audit_event list \<Rightarrow> bool" where
  "links_from h [] = True"
| "links_from h (e # es) = (get_str (ev_prev_hash e) = h \<and> links_from (get_str (ev_hash e)) es)"

definition linked :: "audit_event list \<Rightarrow> bool" where
  "linked cps =
     (case cps of [] \<Rightarrow> True
      | g # rest \<Rightarrow> get_str (ev_prev_hash g) = [] \<and> links_from (get_str (ev_hash g)) rest)"

section \<open>Concrete inputs\<close>

text \<open>The command-line defaults of the two tools, and a three-checkpoint chain.\<close>

definition auditor0 :: auditor where
  "auditor0 = \<lparr>db_url = ''postgresql://localhost/markenz'', seed = 1337, connected = True\<rparr>"

definition replay_audit0 :: replay_audit where
  "replay_audit0 = \<lparr>ra_seed = 1337, events_file = ''events.json'', events = [],
     hash_trajectory = [], divergence_point = None, audit_result = ''PASS''\<rparr>"

definition chain0 :: "audit_event list" where
  "chain0 = [\<lparr>ev_tick = Some 0, ev_hash = Some ''aa'', ev_prev_hash = None\<rparr>,
             \<lparr>ev_tick = Some 1, ev_hash = Some ''bb'', ev_prev_hash = Some ''aa''\<rparr>,
             \<lparr>ev_tick = Some 2, ev_hash = Some ''cc'', ev_prev_hash = Some ''bb''\<rparr>]"

definition swap_a :: event where
  "swap_a = \<lparr>tick = 0, event_type = ''a'', payload = ''bc''\<rparr>"

definition swap_b :: event where
  "swap_b = \<lparr>tick = 0, event_type = ''ab'', payload = ''c''\<rparr>"

definition late_first :: "event list" where
  "late_first = [\<lparr>tick = 5, event_type = ''move'', payload = ''n''\<rparr>,
                 \<lparr>tick = 3, event_type = ''move'', payload = ''s''\<rparr>]"

definition twice_zero :: "checkpoint list" where
  "twice_zero = [\<lparr>cp_tick = 0, world_hash = [1], prev_hash = None, verified = True\<rparr>,
                 \<lparr>cp_tick = 0, world_hash = [2], prev_hash = Some [1], verified = True\<rparr>]"

text \<open>The candidate trajectory that equals a reference: same ticks, same digests.\<close>

definition as_candidate :: "checkpoint list \<Rightarrow> trajectory" where
  "as_candidate cps = map (\<lambda>c. (cp_tick c, hex (world_hash c))) cps"

text \<open>No tick of a reference carries two different digests.\<close>

definition one_digest_per_tick :: "checkpoint list \<Rightarrow> bool" where
  "one_digest_per_tick cps =
     (\<forall>c\<in>set cps. \<forall>c'\<in>set cps. cp_tick c = cp_tick c' \<longrightarrow> world_hash c = world_hash c')"

text \<open>Two events for the comparison of the builder with the specification's recurrence.\<close>

definition first_event :: event where
  "first_event = \<lparr>tick = 0, event_type = ''spawn'', payload = ''{}''\<rparr>"

definition second_event :: event where
  "second_event = \<lparr>tick = 1, event_type = ''move'', payload = ''{}''\<rparr>"

text \<open>One round of the compression function, with both sums evaluated before the next.\<close>

definition rounds_next ::
  "u32 list \<Rightarrow> u32 list \<Rightarrow> u32 \<Rightarrow> u32 \<Rightarrow> u32 list \<Rightarrow> u32 list" where
  "rounds_next ks ws t1 t2 s =
     (case s of [a, b, c, d, e, f, g, h] \<Rightarrow> rounds ks ws [t1 + t2, a, b, c, d + t1, e, f, g]
      | _ \<Rightarrow> s)"

section \<open>Properties\<close>

subsection \<open>The trajectory builder\<close>

lemma rng_iter_shift: "rng_iter (sha256 (r @ encode ''tick'')) i = rng_iter r (Suc i)"
  by (induction i) simp_all

lemma upt_0_Suc_map: "[0..<Suc n] = 0 # map Suc [0..<n]"
  by (simp add: upt_conv_Cons map_Suc_upt del: upt_Suc)

lemma replay_loop_entries:
  "snd (replay_loop u acc es) =
     acc @ map (\<lambda>i. entry_at (rng_iter (rng_state u) i) (es ! i)) [0..<length es]"
proof (induction es arbitrary: u acc)
  case Nil
  show ?case by simp
next
  case (Cons e es)
  have "snd (replay_loop u acc (e # es)) =
        snd (replay_loop (fst (apply_event u e)) (acc @ [snd (apply_event u e)]) es)"
    by (simp add: case_prod_unfold)
  also have "\<dots> = (acc @ [snd (apply_event u e)]) @
        map (\<lambda>i. entry_at (rng_iter (rng_state (fst (apply_event u e))) i) (es ! i)) [0..<length es]"
    by (rule Cons.IH)
  also have "snd (apply_event u e) = entry_at (rng_state u) e"
    by (simp add: apply_event_def entry_at_def Let_def)
  also have "rng_state (fst (apply_event u e)) = sha256 (rng_state u @ encode ''tick'')"
    by (simp add: apply_event_def Let_def)
  finally show ?case
    by (simp add: rng_iter_shift upt_0_Suc_map comp_def del: upt_Suc rng_iter.simps(2))
qed

lemma replay_entries:
  "replay_deterministically a es =
     map (\<lambda>i. entry_at (rng_iter (sha256 (encode (str_int (seed a)))) i) (es ! i)) [0..<length es]"
  by (simp add: replay_deterministically_def replay_loop_entries initial_universe_def)

lemma replay_length: "length (replay_deterministically a es) = length es"
  by (simp add: replay_entries)

lemma replay_ticks: "map fst (replay_deterministically a es) = map tick es"
proof -
  have "map tick es = map tick (map (nth es) [0..<length es])"
    by (simp only: map_nth)
  then show ?thesis
    by (simp add: replay_entries entry_at_def comp_def)
qed

lemma dict_foldl: "foldl (\<lambda>m (t, h). m(t \<mapsto> h)) m0 xs = m0 ++ map_of (rev xs)"
  by (induction xs arbitrary: m0) (auto simp: map_add_upd_left fun_eq_iff map_add_def split: option.splits)

lemma replay_hash_dict_map_of: "replay_hash_dict xs = map_of (rev xs)"
  by (simp add: replay_hash_dict_def dict_foldl)

lemma collect_divergences_concat:
  "collect_divergences d acc cs = acc @ concat (map (check_checkpoint d) cs)"
  by (induction cs arbitrary: acc) simp_all

lemma digit_chars_inj:
  "i < 16 \<Longrightarrow> j < 16 \<Longrightarrow> digit_chars ! i = digit_chars ! j \<Longrightarrow> i = j"
proof -
  have d: "distinct digit_chars" by (simp add: digit_chars_def)
  have l: "length digit_chars = 16" by (simp add: digit_chars_def)
  show "i < 16 \<Longrightarrow> j < 16 \<Longrightarrow> digit_chars ! i = digit_chars ! j \<Longrightarrow> i = j"
    using d l by (simp add: nth_eq_iff_index_eq)
qed

lemma hex_byte_inj: "hex_byte a = hex_byte b \<Longrightarrow> a = b"
proof -
  assume h: "hex_byte a = hex_byte b"
  have ba: "unat a < 256" and bb: "unat b < 256"
    using unsigned_less [of a, where 'a = nat] unsigned_less [of b, where 'a = nat] by simp_all
  then have "unat a div 16 < 16" "unat b div 16 < 16" "unat a mod 16 < 16" "unat b mod 16 < 16"
    by simp_all
  with h have "unat a div 16 = unat b div 16"
    by (auto simp: hex_byte_def dest: digit_chars_inj)
  moreover from h have "unat a mod 16 = unat b mod 16"
    using digit_chars_inj [of "unat a mod 16" "unat b mod 16"] by (simp add: hex_byte_def)
  ultimately have "unat a div 16 = unat b div 16" "unat a mod 16 = unat b mod 16"
    by simp_all
  then have "unat a = unat b"
    by (metis div_mult_mod_eq)
  then show "a = b" by (simp add: word_unat_eq_iff)
qed

lemma hex_byte_length: "length (hex_byte a) = 2"
  by (simp add: hex_byte_def)

lemma hex_inj: "hex xs = hex ys \<Longrightarrow> xs = ys"
proof (induction xs arbitrary: ys)
  case Nil
  then show ?case by (cases ys) (simp_all add: hex_def hex_byte_def)
next
  case (Cons x xs)
  show ?case
  proof (cases ys)
    case Nil
    with Cons.prems show ?thesis by (simp add: hex_def hex_byte_def)
  next
    case (Cons y ys')
    with Cons.prems have "hex_byte x @ hex xs = hex_byte y @ hex ys'"
      by (simp add: hex_def)
    then have "hex_byte x = hex_byte y" "hex xs = hex ys'"
      by (simp_all add: hex_byte_length)
    then show ?thesis using Cons.IH Cons by (simp add: hex_byte_inj)
  qed
qed

lemma map_of_filter_key:
  "P t \<Longrightarrow> map_of (filter (\<lambda>(k, v). P k) xs) t = map_of xs t"
  by (induction xs) auto

lemma d_tick_check_checkpoint: "x \<in> set (check_checkpoint d c) \<Longrightarrow> d_tick x = cp_tick c"
  by (auto simp: check_checkpoint_def split: option.splits if_splits)

lemma check_checkpoint_cong:
  "d (cp_tick c) = d' (cp_tick c) \<Longrightarrow> check_checkpoint d c = check_checkpoint d' c"
  by (simp add: check_checkpoint_def)

lemma verify_hash_chain_concat:
  "verify_hash_chain cps rh =
     (let ds = concat (map (check_checkpoint (map_of (rev rh))) cps) in (ds = [], ds))"
  by (auto simp: verify_hash_chain_def collect_divergences_concat replay_hash_dict_map_of Let_def)

subsection \<open>The comparator\<close>

text \<open>
  C4: for the reference \<open>[(0,A),(1,B),(2,C)]\<close> and the candidate \<open>[(0,A),(1,X),(3,D)]\<close>
  with pairwise distinct digests, the comparator returns exactly two divergences, in
  this order: a hash mismatch at tick 1 holding \<open>B\<close> and \<open>X\<close>, then a missing hash at
  tick 2 whose replay hash is \<open>None\<close>.
\<close>

theorem comparator_example:
  assumes "distinct [A, B, C, X, D]"
  shows "verify_hash_chain
           [\<lparr>cp_tick = 0, world_hash = A, prev_hash = p0, verified = v0\<rparr>,
            \<lparr>cp_tick = 1, world_hash = B, prev_hash = p1, verified = v1\<rparr>,
            \<lparr>cp_tick = 2, world_hash = C, prev_hash = p2, verified = v2\<rparr>]
           [(0, hex A), (1, hex X), (3, hex D)] =
         (False,
          [\<lparr>d_tick = 1, db_hash = hex B, replay_hash = Some (hex X), d_type = hash_mismatch\<rparr>,
           \<lparr>d_tick = 2, db_hash = hex C, replay_hash = None, d_type = missing_hash\<rparr>])"
proof -
  from assms have "hex B \<noteq> hex X"
    by (auto dest: hex_inj)
  then show ?thesis
    by (simp add: verify_hash_chain_concat check_checkpoint_def)
qed

theorem comparator_example_witness:
  "distinct [[1], [2], [3], [4], [5 :: byte]] \<and>
   verify_hash_chain
     [\<lparr>cp_tick = 0, world_hash = [1], prev_hash = None, verified = True\<rparr>,
      \<lparr>cp_tick = 1, world_hash = [2], prev_hash = Some [1], verified = True\<rparr>,
      \<lparr>cp_tick = 2, world_hash = [3], prev_hash = Some [2], verified = True\<rparr>]
     [(0, hex [1]), (1, hex [4]), (3, hex [5])] =
   (False,
    [\<lparr>d_tick = 1, db_hash = hex [2], replay_hash = Some (hex [4]), d_type = hash_mismatch\<rparr>,
     \<lparr>d_tick = 2, db_hash = hex [3], replay_hash = None, d_type = missing_hash\<rparr>])"
proof -
  have h: "distinct [[1], [2], [3], [4], [5 :: byte]]" by simp
  show ?thesis using h comparator_example [OF h] by simp
qed

text \<open>
  C10: the divergences mention only ticks of the reference; candidate entries whose tick
  is not in the reference change nothing; an empty reference gives no divergence and a
  pass, whatever the candidate holds.
\<close>

theorem comparator_reference_ticks_only:
  "d_tick ` set (snd (verify_hash_chain cps rh)) \<subseteq> cp_tick ` set cps \<and>
   verify_hash_chain cps (filter (\<lambda>(t, h). t \<in> cp_tick ` set cps) rh) = verify_hash_chain cps rh \<and>
   verify_hash_chain [] rh = (True, [])"
proof (intro conjI)
  show "d_tick ` set (snd (verify_hash_chain cps rh)) \<subseteq> cp_tick ` set cps"
    by (auto simp: verify_hash_chain_concat Let_def dest: d_tick_check_checkpoint)
next
  have "map (check_checkpoint (map_of (rev (filter (\<lambda>(t, h). t \<in> cp_tick ` set cps) rh)))) cps =
        map (check_checkpoint (map_of (rev rh))) cps"
    by (rule map_cong [OF refl], rule check_checkpoint_cong)
       (simp add: rev_filter map_of_filter_key [where P = "\<lambda>t. t \<in> cp_tick ` set cps"])
  then show "verify_hash_chain cps (filter (\<lambda>(t, h). t \<in> cp_tick ` set cps) rh) =
             verify_hash_chain cps rh"
    by (simp only: verify_hash_chain_concat)
next
  show "verify_hash_chain [] rh = (True, [])"
    by (simp add: verify_hash_chain_concat)
qed

theorem comparator_reference_ticks_only_witness:
  "d_tick ` set (snd (verify_hash_chain twice_zero [(7, ''00'')])) \<subseteq> cp_tick ` set twice_zero \<and>
   verify_hash_chain twice_zero (filter (\<lambda>(t, h). t \<in> cp_tick ` set twice_zero) [(7, ''00'')]) =
     verify_hash_chain twice_zero [(7, ''00'')] \<and>
   verify_hash_chain [] [(7, ''00'')] = (True, [])"
  using comparator_reference_ticks_only [of twice_zero "[(7, ''00'')]"] by simp

subsection \<open>The recurrence of the builder\<close>

text \<open>
  C1, as amended: the random state starts as the digest of the seed and is advanced by
  hashing it with \<open>tick\<close> once per event; the entry for the event at position \<open>i\<close> is its
  tick with the hex digest of tick, event type, payload and the \<open>repr\<close> of the random
  state at \<open>i\<close>. No emitted digest enters a later one. The first entry is the one of the
  specification's recurrence.
\<close>

theorem replay_recurrence:
  "replay_deterministically a evs =
     map (\<lambda>i. entry_at (rng_iter (sha256 (encode (str_int (seed a)))) i) (evs ! i))
       [0..<length evs] \<and>
   take 1 (replay_deterministically a evs) = take 1 (reference_trajectory (seed a) evs)"
proof
  show "replay_deterministically a evs =
     map (\<lambda>i. entry_at (rng_iter (sha256 (encode (str_int (seed a)))) i) (evs ! i))
       [0..<length evs]"
    by (rule replay_entries)
next
  show "take 1 (replay_deterministically a evs) = take 1 (reference_trajectory (seed a) evs)"
  proof (cases evs)
    case Nil
    then show ?thesis by (simp add: replay_entries reference_trajectory_def)
  next
    case (Cons e es)
    then show ?thesis
      by (simp add: replay_entries reference_trajectory_def entry_at_def Let_def
            upt_0_Suc_map del: upt_Suc)
  qed
qed


subsection \<open>Determinism\<close>

lemma first_difference_same: "first_difference i (zip xs xs) = None"
  by (induction xs arbitrary: i) simp_all

lemma count_events_upto_total:
  "list_all (\<lambda>e. ev_tick e \<noteq> None) es \<Longrightarrow> \<exists>n. count_events_upto es t = Inr n"
  by (induction es) auto

lemma simulate_ticks_total:
  "list_all (\<lambda>e. ev_tick e \<noteq> None) (events ra) \<Longrightarrow> \<exists>hs. simulate_ticks ra ts = Inr hs"
proof (induction ts)
  case Nil
  show ?case by simp
next
  case (Cons t ts)
  from Cons.prems obtain n where "count_events_upto (events ra) t = Inr n"
    using count_events_upto_total by blast
  moreover from Cons obtain hs where "simulate_ticks ra ts = Inr hs" by blast
  ultimately show ?case by (simp add: simulate_universe_state_def)
qed

text \<open>
  C2: the trajectory of \<open>replay_deterministically\<close> is a function of the seed and the
  events alone, so two runs on the same pair agree in every entry; and
  \<open>verify_hash_stability\<close>, which builds the simulated trajectory twice and compares,
  never reports a divergence and leaves the audit unchanged: it returns \<open>True\<close> whenever
  it returns, and it returns whenever every event has a tick.
\<close>

theorem builder_deterministic:
  "(seed a = seed b \<longrightarrow> replay_deterministically a evs = replay_deterministically b evs) \<and>
   (\<forall>r. verify_hash_stability ra = Inr r \<longrightarrow> r = (True, ra)) \<and>
   (list_all (\<lambda>e. ev_tick e \<noteq> None) (events ra) \<longrightarrow> verify_hash_stability ra = Inr (True, ra))"
proof (intro conjI impI allI)
  assume "seed a = seed b"
  then show "replay_deterministically a evs = replay_deterministically b evs"
    by (simp add: replay_deterministically_def initial_universe_def)
next
  fix r assume "verify_hash_stability ra = Inr r"
  then show "r = (True, ra)"
    by (auto simp: verify_hash_stability_def first_difference_same split: sum.splits option.splits)
next
  assume "list_all (\<lambda>e. ev_tick e \<noteq> None) (events ra)"
  then obtain hs where "simulate_ticks ra [0..100] = Inr hs"
    using simulate_ticks_total by blast
  then show "verify_hash_stability ra = Inr (True, ra)"
    by (simp add: verify_hash_stability_def first_difference_same)
qed

theorem builder_deterministic_witness:
  "seed auditor0 = seed (auditor0\<lparr>db_url := ''postgresql://replica/markenz''\<rparr>) \<and>
   replay_deterministically auditor0 [\<lparr>tick = 0, event_type = ''spawn'', payload = ''{}''\<rparr>] =
     replay_deterministically (auditor0\<lparr>db_url := ''postgresql://replica/markenz''\<rparr>)
       [\<lparr>tick = 0, event_type = ''spawn'', payload = ''{}''\<rparr>] \<and>
   list_all (\<lambda>e. ev_tick e \<noteq> None)
     (events (replay_audit0\<lparr>events := [\<lparr>ev_tick = Some 3, ev_hash = None, ev_prev_hash = None\<rparr>]\<rparr>)) \<and>
   verify_hash_stability
     (replay_audit0\<lparr>events := [\<lparr>ev_tick = Some 3, ev_hash = None, ev_prev_hash = None\<rparr>]\<rparr>) =
     Inr (True, replay_audit0\<lparr>events := [\<lparr>ev_tick = Some 3, ev_hash = None, ev_prev_hash = None\<rparr>]\<rparr>)"
  using builder_deterministic [of auditor0 "auditor0\<lparr>db_url := ''postgresql://replica/markenz''\<rparr>"
      "[\<lparr>tick = 0, event_type = ''spawn'', payload = ''{}''\<rparr>]"
      "replay_audit0\<lparr>events := [\<lparr>ev_tick = Some 3, ev_hash = None, ev_prev_hash = None\<rparr>]\<rparr>"]
  by simp

subsection \<open>Empty inputs\<close>

text \<open>
  C5: on the empty event sequence the builder returns the empty trajectory, for every
  seed; on the empty checkpoint sequence the chain verifier returns \<open>True\<close>, reports no
  break and leaves the audit result unchanged.
\<close>

theorem empty_inputs:
  "replay_deterministically a [] = [] \<and>
   chain_verify_hash_chain (ra\<lparr>events := []\<rparr>) = (True, ra\<lparr>events := []\<rparr>, Chain_verified)"
  by (simp add: replay_deterministically_def chain_verify_hash_chain_def)

subsection \<open>The chain verifier\<close>

lemma chain_scan_linked: "links_from h es \<Longrightarrow> chain_scan h es = Chain_verified"
  by (induction es arbitrary: h) (simp_all add: Let_def)

lemma chain_scan_break:
  "links_from h es \<Longrightarrow> k < length es \<Longrightarrow> v \<noteq> [] \<Longrightarrow>
   v \<noteq> (if k = 0 then h else get_str (ev_hash (es ! (k - 1)))) \<Longrightarrow>
   chain_scan h (es[k := (es ! k)\<lparr>ev_prev_hash := Some v\<rparr>]) =
     Chain_broken (ev_tick (es ! k))
       (take 16 (if k = 0 then h else get_str (ev_hash (es ! (k - 1))))) (take 16 v)"
proof (induction es arbitrary: h k)
  case Nil
  then show ?case by simp
next
  case (Cons e es)
  show ?case
  proof (cases k)
    case 0
    with Cons.prems show ?thesis by (simp add: Let_def get_str_def)
  next
    case (Suc j)
    with Cons.prems have l: "links_from (get_str (ev_hash e)) es" and j: "j < length es"
      and p: "get_str (ev_prev_hash e) = h" by simp_all
    from Cons.prems Suc
    have v: "v \<noteq> (if j = 0 then get_str (ev_hash e) else get_str (ev_hash (es ! (j - 1))))"
      by (cases j) simp_all
    have "chain_scan (get_str (ev_hash e)) (es[j := (es ! j)\<lparr>ev_prev_hash := Some v\<rparr>]) =
          Chain_broken (ev_tick (es ! j))
            (take 16 (if j = 0 then get_str (ev_hash e) else get_str (ev_hash (es ! (j - 1)))))
            (take 16 v)"
      by (rule Cons.IH [OF l j Cons.prems(3) v])
    with Suc p show ?thesis by (cases j) (simp_all add: Let_def)
  qed
qed

text \<open>
  C3, as amended: on a checkpoint sequence built with \<open>prev_hash[i] = hash[i-1]\<close> and an
  empty genesis \<open>prev_hash\<close> the verifier returns \<open>True\<close>; replacing the \<open>prev_hash\<close> of
  one non-genesis checkpoint by a value that is not empty and is not the hash of its
  predecessor makes it return \<open>False\<close>, set the audit result to \<open>FAIL\<close> and report the
  break at that checkpoint's tick, with no later break reported.
\<close>

theorem chain_verifier_linked:
  assumes "linked cps"
  shows "chain_verify_hash_chain (ra\<lparr>events := cps\<rparr>) = (True, ra\<lparr>events := cps\<rparr>, Chain_verified) \<and>
         (0 < k \<and> k < length cps \<and> v \<noteq> [] \<and> v \<noteq> get_str (ev_hash (cps ! (k - 1))) \<longrightarrow>
          chain_verify_hash_chain (ra\<lparr>events := cps[k := (cps ! k)\<lparr>ev_prev_hash := Some v\<rparr>]\<rparr>) =
            (False,
             ra\<lparr>events := cps[k := (cps ! k)\<lparr>ev_prev_hash := Some v\<rparr>], audit_result := ''FAIL''\<rparr>,
             Chain_broken (ev_tick (cps ! k))
               (take 16 (get_str (ev_hash (cps ! (k - 1))))) (take 16 v)))"
proof (cases cps)
  case Nil
  then show ?thesis by (simp add: chain_verify_hash_chain_def)
next
  case (Cons g rest)
  with assms have g: "get_str (ev_prev_hash g) = []" and l: "links_from (get_str (ev_hash g)) rest"
    by (simp_all add: linked_def)
  have ok: "chain_verify_hash_chain (ra\<lparr>events := cps\<rparr>) = (True, ra\<lparr>events := cps\<rparr>, Chain_verified)"
    using Cons g chain_scan_linked [OF l] by (simp add: chain_verify_hash_chain_def Let_def)
  have br: "chain_verify_hash_chain (ra\<lparr>events := cps[k := (cps ! k)\<lparr>ev_prev_hash := Some v\<rparr>]\<rparr>) =
            (False,
             ra\<lparr>events := cps[k := (cps ! k)\<lparr>ev_prev_hash := Some v\<rparr>], audit_result := ''FAIL''\<rparr>,
             Chain_broken (ev_tick (cps ! k))
               (take 16 (get_str (ev_hash (cps ! (k - 1))))) (take 16 v))"
    if k: "0 < k" "k < length cps" and v: "v \<noteq> []" "v \<noteq> get_str (ev_hash (cps ! (k - 1)))"
  proof -
    from k obtain j where j: "k = Suc j" by (cases k) simp_all
    with k Cons have jl: "j < length rest" by simp
    from v j Cons
    have v': "v \<noteq> (if j = 0 then get_str (ev_hash g) else get_str (ev_hash (rest ! (j - 1))))"
      by (cases j) simp_all
    have "chain_scan (get_str (ev_hash g)) (rest[j := (rest ! j)\<lparr>ev_prev_hash := Some v\<rparr>]) =
          Chain_broken (ev_tick (rest ! j))
            (take 16 (if j = 0 then get_str (ev_hash g) else get_str (ev_hash (rest ! (j - 1)))))
            (take 16 v)"
      by (rule chain_scan_break [OF l jl v(1) v'])
    with Cons j g show ?thesis
      by (cases j) (simp_all add: chain_verify_hash_chain_def Let_def)
  qed
  from ok br show ?thesis by blast
qed

theorem chain_verifier_linked_witness:
  "linked chain0 \<and>
   chain_verify_hash_chain (replay_audit0\<lparr>events := chain0\<rparr>) =
     (True, replay_audit0\<lparr>events := chain0\<rparr>, Chain_verified) \<and>
   (0::nat) < 1 \<and> 1 < length chain0 \<and> ''zz'' \<noteq> [] \<and> ''zz'' \<noteq> get_str (ev_hash (chain0 ! (1 - 1))) \<and>
   chain_verify_hash_chain
     (replay_audit0\<lparr>events := chain0[1 := (chain0 ! 1)\<lparr>ev_prev_hash := Some ''zz''\<rparr>]\<rparr>) =
     (False,
      replay_audit0\<lparr>events := chain0[1 := (chain0 ! 1)\<lparr>ev_prev_hash := Some ''zz''\<rparr>],
                    audit_result := ''FAIL''\<rparr>,
      Chain_broken (ev_tick (chain0 ! 1)) (take 16 (get_str (ev_hash (chain0 ! (1 - 1)))))
        (take 16 ''zz''))"
proof -
  have l: "linked chain0"
    by (simp add: linked_def chain0_def get_str_def)
  have h: "(0::nat) < 1 \<and> 1 < length chain0 \<and> ''zz'' \<noteq> [] \<and>
           ''zz'' \<noteq> get_str (ev_hash (chain0 ! (1 - 1)))"
    by (simp add: chain0_def get_str_def)
  from chain_verifier_linked [OF l, of replay_audit0 1 "''zz''"] l h show ?thesis
    by blast
qed

text \<open>
  The claim as stated fails for the empty string: a checkpoint whose \<open>prev_hash\<close> is
  replaced by \<open>''\<close> is skipped by the guard, and the chain still verifies.
\<close>

theorem chain_verifier_empty_prev_counterexample:
  "linked chain0 \<and>
   chain_verify_hash_chain
     (replay_audit0\<lparr>events := chain0[1 := (chain0 ! 1)\<lparr>ev_prev_hash := Some []\<rparr>]\<rparr>) =
     (True, replay_audit0\<lparr>events := chain0[1 := (chain0 ! 1)\<lparr>ev_prev_hash := Some []\<rparr>]\<rparr>,
      Chain_verified)"
  by (simp add: linked_def chain0_def get_str_def chain_verify_hash_chain_def Let_def)


subsection \<open>Order of the events\<close>


lemma count_events_upto_eq:
  "count_events_upto es t =
     (if list_all (\<lambda>e. ev_tick e \<noteq> None) es
      then Inr (length (filter (\<lambda>e. the (ev_tick e) \<le> t) es))
      else Inl (KeyError ''tick''))"
  by (induction es) (auto split: option.splits)

lemma count_events_upto_perm:
  assumes "mset es = mset es'"
  shows "count_events_upto es t = count_events_upto es' t"
proof -
  from assms have "set es = set es'" by (rule mset_eq_setD)
  then have a: "list_all (\<lambda>e. ev_tick e \<noteq> None) es = list_all (\<lambda>e. ev_tick e \<noteq> None) es'"
    by (simp add: list_all_iff)
  have "length (filter (\<lambda>e. the (ev_tick e) \<le> t) es) =
        size (filter_mset (\<lambda>e. the (ev_tick e) \<le> t) (mset es))"
    by (simp only: mset_filter [symmetric] size_mset)
  also have "\<dots> = size (filter_mset (\<lambda>e. the (ev_tick e) \<le> t) (mset es'))"
    by (simp only: assms)
  also have "\<dots> = length (filter (\<lambda>e. the (ev_tick e) \<le> t) es')"
    by (simp only: mset_filter [symmetric] size_mset)
  finally show ?thesis using a by (simp add: count_events_upto_eq)
qed

lemma simulate_universe_state_perm:
  "mset es = mset es' \<Longrightarrow>
   simulate_universe_state (ra\<lparr>events := es\<rparr>) t = simulate_universe_state (ra\<lparr>events := es'\<rparr>) t"
  by (simp add: simulate_universe_state_def count_events_upto_perm [of es es'] split: sum.splits)

lemma simulate_ticks_perm:
  "mset es = mset es' \<Longrightarrow>
   simulate_ticks (ra\<lparr>events := es\<rparr>) ts = simulate_ticks (ra\<lparr>events := es'\<rparr>) ts"
  by (induction ts) (simp_all add: simulate_universe_state_perm [of es es'] split: sum.splits)







subsection \<open>Duplicate and unsorted ticks\<close>

text \<open>
  C7, as amended: the builder emits one entry per event, in the order of the events, so
  a tick that occurs twice in the input occurs twice in the trajectory, and the ticks of
  the trajectory are distinct exactly when those of the events are. Only the lookup of
  the comparator keeps the last entry of a tick.
\<close>

theorem duplicate_ticks_kept:
  "map fst (replay_deterministically a evs) = map tick evs \<and>
   distinct (map fst (replay_deterministically a evs)) = distinct (map tick evs) \<and>
   replay_hash_dict (replay_deterministically a evs) t =
     map_of (rev (replay_deterministically a evs)) t"
  by (simp add: replay_ticks replay_hash_dict_map_of)

text \<open>
  The claim as stated fails: two events at tick 0 give two entries at tick 0.
\<close>

theorem duplicate_ticks_counterexample:
  "map tick [swap_a, swap_b] = [0, 0] \<and>
   map fst (replay_deterministically auditor0 [swap_a, swap_b]) = [0, 0] \<and>
   \<not> distinct (map fst (replay_deterministically auditor0 [swap_a, swap_b]))"
  by (simp add: replay_ticks swap_a_def swap_b_def)

text \<open>
  C8, as amended: the builder has no ordering check. Given events whose ticks are not
  ascending it returns, with one entry per event in the order given: the trajectory is
  as unsorted as the input, nothing is rejected and nothing is re-sorted.
\<close>

theorem unsorted_processed_as_given:
  "\<not> sorted (map tick evs) \<longrightarrow>
     length (replay_deterministically a evs) = length evs \<and>
     map fst (replay_deterministically a evs) = map tick evs \<and>
     \<not> sorted (map fst (replay_deterministically a evs))"
  by (simp add: replay_ticks replay_length)

theorem unsorted_processed_as_given_witness:
  "\<not> sorted (map tick late_first) \<and>
   length (replay_deterministically auditor0 late_first) = length late_first \<and>
   map fst (replay_deterministically auditor0 late_first) = map tick late_first \<and>
   \<not> sorted (map fst (replay_deterministically auditor0 late_first))"
proof -
  have u: "\<not> sorted (map tick late_first)" by (simp add: late_first_def)
  from unsorted_processed_as_given [of late_first auditor0] u show ?thesis by blast
qed

text \<open>
  The claim as stated fails: events at ticks 5, 3 are replayed into entries at ticks 5, 3.
\<close>

theorem unsorted_no_error_counterexample:
  "\<not> sorted (map tick late_first) \<and>
   map fst (replay_deterministically auditor0 late_first) = [5, 3]"
  by (simp add: replay_ticks late_first_def)

subsection \<open>A candidate equal to the reference\<close>

lemma candidate_lookup:
  assumes "one_digest_per_tick cps"
    and "c \<in> set cps"
  shows "map_of (rev (as_candidate cps)) (cp_tick c) = Some (hex (world_hash c))"
proof -
  from assms(2) have "(cp_tick c, hex (world_hash c)) \<in> set (rev (as_candidate cps))"
    by (auto simp: as_candidate_def)
  then obtain v where v: "map_of (rev (as_candidate cps)) (cp_tick c) = Some v"
    using weak_map_of_SomeI by fastforce
  then have "(cp_tick c, v) \<in> set (rev (as_candidate cps))"
    by (rule map_of_SomeD)
  then obtain c' where "c' \<in> set cps" "cp_tick c' = cp_tick c" "v = hex (world_hash c')"
    by (auto simp: as_candidate_def)
  with assms have "v = hex (world_hash c)" unfolding one_digest_per_tick_def by metis
  with v show ?thesis by simp
qed

text \<open>
  C9, as amended: when no tick of the reference carries two different digests (in
  particular when its ticks are distinct), the comparator finds no divergence between
  the reference and the candidate equal to it, the status is \<open>PASS\<close> and the first
  divergence tick is \<open>None\<close>.
\<close>

theorem compare_equal_pass:
  assumes "one_digest_per_tick cps"
  shows "verify_hash_chain cps (as_candidate cps) = (True, []) \<and>
         generate_report (fst (verify_hash_chain cps (as_candidate cps)))
                         (snd (verify_hash_chain cps (as_candidate cps))) =
           \<lparr>status = ''PASS'', divergences_count = 0, first_divergence_tick = None\<rparr>"
proof -
  have "\<forall>c\<in>set cps. check_checkpoint (map_of (rev (as_candidate cps))) c = []"
    using candidate_lookup [OF assms] by (simp add: check_checkpoint_def)
  then have "verify_hash_chain cps (as_candidate cps) = (True, [])"
    by (simp add: verify_hash_chain_concat)
  then show ?thesis by (simp add: generate_report_def)
qed

theorem compare_equal_pass_witness:
  "one_digest_per_tick (take 1 twice_zero) \<and>
   verify_hash_chain (take 1 twice_zero) (as_candidate (take 1 twice_zero)) = (True, []) \<and>
   generate_report (fst (verify_hash_chain (take 1 twice_zero) (as_candidate (take 1 twice_zero))))
                   (snd (verify_hash_chain (take 1 twice_zero) (as_candidate (take 1 twice_zero)))) =
     \<lparr>status = ''PASS'', divergences_count = 0, first_divergence_tick = None\<rparr>"
proof -
  have h: "one_digest_per_tick (take 1 twice_zero)"
    by (simp add: one_digest_per_tick_def twice_zero_def)
  from compare_equal_pass [OF h] h show ?thesis by blast
qed

text \<open>
  The claim as stated fails on a reference with two digests at one tick: the lookup keeps
  the last, and the first checkpoint is reported as a mismatch.
\<close>

theorem compare_equal_duplicate_tick_counterexample:
  "verify_hash_chain twice_zero (as_candidate twice_zero) =
     (False, [\<lparr>d_tick = 0, db_hash = ''01'', replay_hash = Some ''02'', d_type = hash_mismatch\<rparr>]) \<and>
   generate_report (fst (verify_hash_chain twice_zero (as_candidate twice_zero)))
                   (snd (verify_hash_chain twice_zero (as_candidate twice_zero))) =
     \<lparr>status = ''FAIL'', divergences_count = 1, first_divergence_tick = Some 0\<rparr>"
proof -
  have "verify_hash_chain twice_zero (as_candidate twice_zero) =
     (False, [\<lparr>d_tick = 0, db_hash = ''01'', replay_hash = Some ''02'', d_type = hash_mismatch\<rparr>])"
    by (simp add: verify_hash_chain_concat check_checkpoint_def twice_zero_def as_candidate_def
          hex_def hex_byte_def digit_chars_def)
  then show ?thesis by (simp add: generate_report_def)
qed


section \<open>The recurrence of the builder evaluated on two events\<close>

subsection \<open>Evaluation of SHA-256 by rewriting\<close>

text \<open>
  Rewrite rules that evaluate the compression function on numerals: shifts and rotations
  of a 32-bit numeral as division and remainder, every sum reduced modulo \<open>2 ^ 32\<close>, and
  one round of the message schedule and of the compression loop at a time.
\<close>

lemma norm32_gen: "(of_nat (n mod 4294967296) :: u32) = of_nat n"
  by (simp add: word_of_nat_eq_iff take_bit_eq_mod)

lemma rot_nat:
  fixes m :: nat
  assumes "m < 2 ^ 32" "n \<le> 32"
  shows "take_bit 32 (drop_bit n m OR push_bit (32 - n) m) =
         m div 2 ^ n + (m mod 2 ^ n) * 2 ^ (32 - n)"
proof -
  have t: "take_bit 32 m = m"
    using assms by (simp add: take_bit_nat_eq_self)
  have nb: "\<not> bit m j" if "32 \<le> j" for j
    using bit_take_bit_iff [of 32 m j] t that by simp
  have "drop_bit n m \<le> m"
    by (simp add: drop_bit_eq_div)
  with assms have "drop_bit n m < 2 ^ 32"
    by linarith
  then have a: "take_bit 32 (drop_bit n m) = drop_bit n m"
    by (simp add: take_bit_nat_eq_self)
  have b: "take_bit 32 (push_bit (32 - n) m) = push_bit (32 - n) (take_bit n m)"
    using assms by (simp add: take_bit_push_bit)
  have c: "drop_bit n m + push_bit (32 - n) (take_bit n m) =
           drop_bit n m OR push_bit (32 - n) (take_bit n m)"
    by (rule disjunctive_add) (auto simp: bit_simps nb)
  have "take_bit 32 (drop_bit n m OR push_bit (32 - n) m) =
        drop_bit n m + push_bit (32 - n) (take_bit n m)"
    by (simp only: take_bit_or a b c)
  then show ?thesis
    by (simp add: drop_bit_eq_div push_bit_eq_mult take_bit_eq_mod)
qed

lemma nb32: "m < 4294967296 \<Longrightarrow> 32 \<le> j \<Longrightarrow> \<not> bit m j" for m :: nat
proof -
  assume m: "m < 4294967296" and j: "32 \<le> j"
  have t: "take_bit 32 m = m"
    using m by (simp add: take_bit_nat_eq_self)
  show "\<not> bit m j"
    using bit_take_bit_iff [of 32 m j] t j by simp
qed

lemma bit_lt32: "m < 4294967296 \<Longrightarrow> bit m j \<Longrightarrow> j < 32" for m :: nat
  using nb32 [of m j] by (cases "j < 32") simp_all

lemma s1: "m < 4294967296 \<Longrightarrow> drop_bit n (of_nat m :: u32) = of_nat (drop_bit n m)"
  by (rule bit_word_eqI) (auto simp: bit_simps dest: bit_lt32)

lemma rotr_gen:
  assumes "m < 4294967296" "n \<le> 32"
  shows "rotr n (of_nat m) = of_nat (m div 2 ^ n + (m mod 2 ^ n) * 2 ^ (32 - n))"
proof -
  have "rotr n (of_nat m) = (of_nat (drop_bit n m OR push_bit (32 - n) m) :: u32)"
    using assms by (simp add: rotr_def of_nat_or_eq push_bit_of_nat s1)
  also have "\<dots> = of_nat (take_bit 32 (drop_bit n m OR push_bit (32 - n) m))"
    by (simp only: take_bit_eq_mod) (simp add: norm32_gen)
  also have "take_bit 32 (drop_bit n m OR push_bit (32 - n) m) =
             m div 2 ^ n + (m mod 2 ^ n) * 2 ^ (32 - n)"
    using assms by (intro rot_nat) simp_all
  finally show ?thesis .
qed

lemma ch_eval: "ch x y z = z XOR (x AND (y XOR z))"
  by (simp add: ch_def bit_eq_iff bit_simps) blast

lemma maj_eval: "maj x y z = (x AND y) XOR (z AND (x XOR y))"
  by (simp add: maj_def bit_eq_iff bit_simps) blast

lemma norm32: "4294967296 \<le> (numeral k :: nat) \<Longrightarrow> (numeral k :: u32) = of_nat (numeral k mod 4294967296)"
  using norm32_gen [of "numeral k"] by simp

lemma shr_eval:
  "numeral k < (4294967296::nat) \<Longrightarrow> drop_bit n (numeral k :: u32) = of_nat (numeral k div 2 ^ n)"
  using s1 [of "numeral k" n] by (simp add: drop_bit_eq_div)

lemma rotr_eval:
  "numeral k < (4294967296::nat) \<Longrightarrow> n \<le> 32 \<Longrightarrow>
   rotr n (numeral k) = of_nat (numeral k div 2 ^ n + (numeral k mod 2 ^ n) * 2 ^ (32 - n))"
  using rotr_gen [of "numeral k" n] by simp

lemma rotr_0: "rotr n 0 = 0"
  by (simp add: rotr_def)

lemma rotr_1: "n \<le> 32 \<Longrightarrow> rotr n 1 = of_nat (1 div 2 ^ n + (1 mod 2 ^ n) * 2 ^ (32 - n))"
  using rotr_gen [of 1 n] by simp

lemma schedule_numeral:
  "schedule (numeral k) ws =
     schedule (pred_numeral k) ((ssig1 (ws ! 1) + ws ! 6 + ssig0 (ws ! 14) + ws ! 15) # ws)"
  by (simp add: numeral_eq_Suc)

lemma schedule_1:
  "schedule (Suc 0) ws = (ssig1 (ws ! 1) + ws ! 6 + ssig0 (ws ! 14) + ws ! 15) # ws"
  by simp

lemma rounds_eval:
  "rounds (k # ks) (w # ws) [a, b, c, d, e, f, g, h] =
     rounds_next ks ws (h + bsig1 e + ch e f g + k + w) (bsig0 a + maj a b c)
       [a, b, c, d, e, f, g, h]"
  by (simp add: Let_def rounds_next_def)

lemma rounds_next_eval:
  "rounds_next ks ws t1 t2 [a, b, c, d, e, f, g, h] =
     rounds ks ws [t1 + t2, a, b, c, d + t1, e, f, g]"
  by (simp add: rounds_next_def)

lemma rounds_nil: "rounds [] ws s = s"
  by simp

lemmas sha_eval = ssig0_def ssig1_def bsig0_def bsig1_def ch_eval maj_eval norm32
  shr_eval rotr_eval rotr_0 rotr_1 schedule_numeral schedule_1 rounds_eval rounds_next_eval
  rounds_nil

lemma blocks_numeral:
  "blocks (numeral k) h ws = blocks (pred_numeral k) (compress h (take 16 ws)) (drop 16 ws)"
  by (simp add: numeral_eq_Suc)

lemma blocks_1: "blocks (Suc 0) h ws = compress h (take 16 ws)"
  by simp

lemma replicate_num: "replicate (numeral k) x = x # replicate (pred_numeral k) x"
  by (simp add: numeral_eq_Suc)

lemma norm8_gen: "(of_nat (n mod 256) :: 8 word) = of_nat n"
  by (simp add: word_of_nat_eq_iff take_bit_eq_mod)

lemma norm8:
  assumes "256 \<le> (numeral k :: nat)"
  shows "(numeral k :: 8 word) = of_nat (numeral k mod 256)"
proof -
  have "(of_nat (numeral k mod 256) :: 8 word) = of_nat (numeral k)"
    by (rule norm8_gen)
  also have "\<dots> = numeral k"
    by (simp only: of_nat_numeral)
  finally show ?thesis by (rule sym)
qed

lemma of_char_char_of: "(of_char (char_of (n::nat)) :: 8 word) = of_nat n"
proof -
  have "(of_char (char_of n) :: 8 word) = of_nat (of_char (char_of n))"
    by (simp only: of_nat_of_char)
  also have "\<dots> = of_nat (n mod 256)"
    by (simp only: of_char_of)
  also have "\<dots> = of_nat n"
    by (simp add: word_of_nat_eq_iff take_bit_eq_mod)
  finally show ?thesis .
qed


subsection \<open>The digests of seed 1337 with the events \<open>(0, spawn, {})\<close> and \<open>(1, move, {})\<close>\<close>

text \<open>
  For each message hashed by the builder and by the recurrence of the specification: the
  message as bytes, its padded words, the compression of each block, and the digest.
\<close>

lemma seed_message: "encode (str_int (seed auditor0)) = [49, 51, 51, 55]"
  by (simp add: auditor0_def encode_def str_int_def str_nat.simps digit_chars_def bytes_repr_def repr_byte_def hex_byte_def
        of_char_char_of norm8)

lemma seed_state_words:
  "be32 (pad [49, 51, 51, 55]) =
     [825439031, 2147483648, 0, 0, 0, 0,
     0, 0, 0, 0, 0, 0,
     0, 0, 0, 32]"
  by (simp add: pad_def bytes_of_u64_def replicate_num)

lemma seed_state_block1:
  "compress H256
     [825439031, 2147483648, 0, 0, 0, 0,
     0, 0, 0, 0, 0, 0,
     0, 0, 0, 32] =
     [1571946212, 3044030472, 3296753831, 1734914389,
     3022107152, 3228966102, 2782012404, 3651083946]"
  by (simp add: sha_eval compress_def K256_def H256_def
        del: schedule.simps rounds.simps drop_bit_word_numeral)

lemma seed_state_sha256:
  "sha256 [49, 51, 51, 55] =
     [93, 177, 254, 228, 181, 112, 56, 8, 196, 128, 120, 167, 103, 104, 177, 85,
     180, 33, 178, 16, 192, 118, 28, 214, 165, 210, 35, 244, 217, 159, 30, 170]"
  by (simp add: sha256_def seed_state_words blocks_numeral blocks_1 seed_state_block1
        bytes_of_u32_def shr_eval norm8 del: drop_bit_word_numeral)

lemma next_message:
  "[93, 177, 254, 228, 181, 112, 56, 8, 196, 128, 120, 167, 103, 104, 177, 85,
   180, 33, 178, 16, 192, 118, 28, 214, 165, 210, 35, 244, 217, 159, 30, 170] @ encode ''tick'' =
     [93, 177, 254, 228, 181, 112, 56, 8, 196, 128, 120, 167, 103, 104, 177, 85,
     180, 33, 178, 16, 192, 118, 28, 214, 165, 210, 35, 244, 217, 159, 30, 170,
     116, 105, 99, 107]"
  by (simp add: encode_def)

lemma next_state_words:
  "be32 (pad [93, 177, 254, 228, 181, 112, 56, 8, 196, 128, 120, 167, 103, 104, 177, 85,
             180, 33, 178, 16, 192, 118, 28, 214, 165, 210, 35, 244, 217, 159, 30, 170,
             116, 105, 99, 107]) =
     [1571946212, 3044030472, 3296753831, 1734914389, 3022107152, 3228966102,
     2782012404, 3651083946, 1953063787, 2147483648, 0, 0,
     0, 0, 0, 288]"
  by (simp add: pad_def bytes_of_u64_def replicate_num)

lemma next_state_block1:
  "compress H256
     [1571946212, 3044030472, 3296753831, 1734914389, 3022107152, 3228966102,
     2782012404, 3651083946, 1953063787, 2147483648, 0, 0,
     0, 0, 0, 288] =
     [2639651396, 3576324141, 1891429262, 1270641506,
     2033519088, 737474280, 2583841374, 3779754157]"
  by (simp add: sha_eval compress_def K256_def H256_def
        del: schedule.simps rounds.simps drop_bit_word_numeral)

lemma next_state_sha256:
  "sha256 [93, 177, 254, 228, 181, 112, 56, 8, 196, 128, 120, 167, 103, 104, 177, 85,
          180, 33, 178, 16, 192, 118, 28, 214, 165, 210, 35, 244, 217, 159, 30, 170,
          116, 105, 99, 107] =
     [157, 85, 226, 68, 213, 42, 96, 45, 112, 188, 235, 142, 75, 188, 115, 98,
     121, 53, 9, 240, 43, 244, 246, 232, 154, 2, 74, 94, 225, 74, 120, 173]"
  by (simp add: sha256_def next_state_words blocks_numeral blocks_1 next_state_block1
        bytes_of_u32_def shr_eval norm8 del: drop_bit_word_numeral)

lemma first_message:
  "encode (str_int (tick first_event) @ event_type first_event @ payload first_event @ bytes_repr
     [93, 177, 254, 228, 181, 112, 56, 8, 196, 128, 120, 167, 103, 104, 177, 85,
     180, 33, 178, 16, 192, 118, 28, 214, 165, 210, 35, 244, 217, 159, 30, 170]) =
     [48, 115, 112, 97, 119, 110, 123, 125, 98, 39, 93, 92, 120, 98, 49, 92,
     120, 102, 101, 92, 120, 101, 52, 92, 120, 98, 53, 112, 56, 92, 120, 48,
     56, 92, 120, 99, 52, 92, 120, 56, 48, 120, 92, 120, 97, 55, 103, 104,
     92, 120, 98, 49, 85, 92, 120, 98, 52, 33, 92, 120, 98, 50, 92, 120,
     49, 48, 92, 120, 99, 48, 118, 92, 120, 49, 99, 92, 120, 100, 54, 92,
     120, 97, 53, 92, 120, 100, 50, 35, 92, 120, 102, 52, 92, 120, 100, 57,
     92, 120, 57, 102, 92, 120, 49, 101, 92, 120, 97, 97, 39]"
  by (simp add: first_event_def encode_def str_int_def str_nat.simps digit_chars_def bytes_repr_def repr_byte_def hex_byte_def
        of_char_char_of norm8)

lemma first_entry_words:
  "be32 (pad [48, 115, 112, 97, 119, 110, 123, 125, 98, 39, 93, 92, 120, 98, 49, 92,
             120, 102, 101, 92, 120, 101, 52, 92, 120, 98, 53, 112, 56, 92, 120, 48,
             56, 92, 120, 99, 52, 92, 120, 56, 48, 120, 92, 120, 97, 55, 103, 104,
             92, 120, 98, 49, 85, 92, 120, 98, 52, 33, 92, 120, 98, 50, 92, 120,
             49, 48, 92, 120, 99, 48, 118, 92, 120, 49, 99, 92, 120, 100, 54, 92,
             120, 97, 53, 92, 120, 100, 50, 35, 92, 120, 102, 52, 92, 120, 100, 57,
             92, 120, 57, 102, 92, 120, 49, 101, 92, 120, 97, 97, 39]) =
     [812871777, 2003729277, 1646746972, 2019701084, 2019976540, 2019898460,
     2019702128, 945584176, 945584227, 878475320, 813194360, 1631020904,
     1551393329, 1432123490, 874601592, 1647467640, 825252984, 1664120412,
     2016502620, 2019833436, 2019636572, 2019832355, 1551394356, 1551393849,
     1551382886, 1551380837, 1551393121, 662700032, 0, 0,
     0, 872]"
  by (simp add: pad_def bytes_of_u64_def replicate_num)

lemma first_entry_block1:
  "compress H256
     [812871777, 2003729277, 1646746972, 2019701084, 2019976540, 2019898460,
     2019702128, 945584176, 945584227, 878475320, 813194360, 1631020904,
     1551393329, 1432123490, 874601592, 1647467640] =
     [877652586, 1384221266, 1038572978, 3058111714,
     149174071, 1460963768, 1619138871, 1220446840]"
  by (simp add: sha_eval compress_def K256_def H256_def
        del: schedule.simps rounds.simps drop_bit_word_numeral)

lemma first_entry_block2:
  "compress [877652586, 1384221266, 1038572978, 3058111714,
             149174071, 1460963768, 1619138871, 1220446840]
     [825252984, 1664120412, 2016502620, 2019833436, 2019636572, 2019832355,
     1551394356, 1551393849, 1551382886, 1551380837, 1551393121, 662700032,
     0, 0, 0, 872] =
     [3473317816, 1525976634, 913862188, 3848889431,
     1314589579, 4020769769, 3326746577, 740845779]"
  by (simp add: sha_eval compress_def K256_def H256_def
        del: schedule.simps rounds.simps drop_bit_word_numeral)

lemma first_entry_sha256:
  "sha256 [48, 115, 112, 97, 119, 110, 123, 125, 98, 39, 93, 92, 120, 98, 49, 92,
          120, 102, 101, 92, 120, 101, 52, 92, 120, 98, 53, 112, 56, 92, 120, 48,
          56, 92, 120, 99, 52, 92, 120, 56, 48, 120, 92, 120, 97, 55, 103, 104,
          92, 120, 98, 49, 85, 92, 120, 98, 52, 33, 92, 120, 98, 50, 92, 120,
          49, 48, 92, 120, 99, 48, 118, 92, 120, 49, 99, 92, 120, 100, 54, 92,
          120, 97, 53, 92, 120, 100, 50, 35, 92, 120, 102, 52, 92, 120, 100, 57,
          92, 120, 57, 102, 92, 120, 49, 101, 92, 120, 97, 97, 39] =
     [207, 6, 159, 184, 90, 244, 142, 58, 54, 120, 110, 44, 229, 105, 100, 87,
     78, 91, 11, 139, 239, 168, 19, 233, 198, 74, 31, 209, 44, 40, 104, 211]"
  by (simp add: sha256_def first_entry_words blocks_numeral blocks_1 first_entry_block1 first_entry_block2
        bytes_of_u32_def shr_eval norm8 del: drop_bit_word_numeral)

lemma second_message:
  "encode (str_int (tick second_event) @ event_type second_event @ payload second_event @ bytes_repr
     [157, 85, 226, 68, 213, 42, 96, 45, 112, 188, 235, 142, 75, 188, 115, 98,
     121, 53, 9, 240, 43, 244, 246, 232, 154, 2, 74, 94, 225, 74, 120, 173]) =
     [49, 109, 111, 118, 101, 123, 125, 98, 39, 92, 120, 57, 100, 85, 92, 120,
     101, 50, 68, 92, 120, 100, 53, 42, 96, 45, 112, 92, 120, 98, 99, 92,
     120, 101, 98, 92, 120, 56, 101, 75, 92, 120, 98, 99, 115, 98, 121, 53,
     92, 116, 92, 120, 102, 48, 43, 92, 120, 102, 52, 92, 120, 102, 54, 92,
     120, 101, 56, 92, 120, 57, 97, 92, 120, 48, 50, 74, 94, 92, 120, 101,
     49, 74, 120, 92, 120, 97, 100, 39]"
  by (simp add: second_event_def encode_def str_int_def str_nat.simps digit_chars_def bytes_repr_def repr_byte_def hex_byte_def
        of_char_char_of norm8)

lemma second_entry_words:
  "be32 (pad [49, 109, 111, 118, 101, 123, 125, 98, 39, 92, 120, 57, 100, 85, 92, 120,
             101, 50, 68, 92, 120, 100, 53, 42, 96, 45, 112, 92, 120, 98, 99, 92,
             120, 101, 98, 92, 120, 56, 101, 75, 92, 120, 98, 99, 115, 98, 121, 53,
             92, 116, 92, 120, 102, 48, 43, 92, 120, 102, 52, 92, 120, 102, 54, 92,
             120, 101, 56, 92, 120, 57, 97, 92, 120, 48, 50, 74, 94, 92, 120, 101,
             49, 74, 120, 92, 120, 97, 100, 39]) =
     [829255542, 1702591842, 660371513, 1683315832, 1697793116, 2019833130,
     1613590620, 2019713884, 2019910236, 2016961867, 1551393379, 1935833397,
     1551129720, 1714432860, 2019963996, 2019964508, 2019899484, 2017026396,
     2016424522, 1583118437, 826964060, 2019648551, 2147483648, 0,
     0, 0, 0, 0, 0, 0,
     0, 704]"
  by (simp add: pad_def bytes_of_u64_def replicate_num)

lemma second_entry_block1:
  "compress H256
     [829255542, 1702591842, 660371513, 1683315832, 1697793116, 2019833130,
     1613590620, 2019713884, 2019910236, 2016961867, 1551393379, 1935833397,
     1551129720, 1714432860, 2019963996, 2019964508] =
     [2322374998, 1101318340, 2641525943, 946714079,
     1823276821, 635508894, 2300517183, 1989547086]"
  by (simp add: sha_eval compress_def K256_def H256_def
        del: schedule.simps rounds.simps drop_bit_word_numeral)

lemma second_entry_block2:
  "compress [2322374998, 1101318340, 2641525943, 946714079,
             1823276821, 635508894, 2300517183, 1989547086]
     [2019899484, 2017026396, 2016424522, 1583118437, 826964060, 2019648551,
     2147483648, 0, 0, 0, 0, 0,
     0, 0, 0, 704] =
     [3100220542, 2660354439, 2336758128, 2740118706,
     1783088124, 4244352340, 1053941848, 2080558116]"
  by (simp add: sha_eval compress_def K256_def H256_def
        del: schedule.simps rounds.simps drop_bit_word_numeral)

lemma second_entry_sha256:
  "sha256 [49, 109, 111, 118, 101, 123, 125, 98, 39, 92, 120, 57, 100, 85, 92, 120,
          101, 50, 68, 92, 120, 100, 53, 42, 96, 45, 112, 92, 120, 98, 99, 92,
          120, 101, 98, 92, 120, 56, 101, 75, 92, 120, 98, 99, 115, 98, 121, 53,
          92, 116, 92, 120, 102, 48, 43, 92, 120, 102, 52, 92, 120, 102, 54, 92,
          120, 101, 56, 92, 120, 57, 97, 92, 120, 48, 50, 74, 94, 92, 120, 101,
          49, 74, 120, 92, 120, 97, 100, 39] =
     [184, 201, 156, 126, 158, 145, 201, 135, 139, 72, 25, 112, 163, 82, 228, 178,
     106, 71, 195, 252, 252, 251, 173, 84, 62, 209, 224, 88, 124, 2, 204, 36]"
  by (simp add: sha256_def second_entry_words blocks_numeral blocks_1 second_entry_block1 second_entry_block2
        bytes_of_u32_def shr_eval norm8 del: drop_bit_word_numeral)

lemma second_reference_message:
  "encode (str_int (tick second_event) @ event_type second_event @ payload second_event @ bytes_repr
     [207, 6, 159, 184, 90, 244, 142, 58, 54, 120, 110, 44, 229, 105, 100, 87,
     78, 91, 11, 139, 239, 168, 19, 233, 198, 74, 31, 209, 44, 40, 104, 211]) =
     [49, 109, 111, 118, 101, 123, 125, 98, 39, 92, 120, 99, 102, 92, 120, 48,
     54, 92, 120, 57, 102, 92, 120, 98, 56, 90, 92, 120, 102, 52, 92, 120,
     56, 101, 58, 54, 120, 110, 44, 92, 120, 101, 53, 105, 100, 87, 78, 91,
     92, 120, 48, 98, 92, 120, 56, 98, 92, 120, 101, 102, 92, 120, 97, 56,
     92, 120, 49, 51, 92, 120, 101, 57, 92, 120, 99, 54, 74, 92, 120, 49,
     102, 92, 120, 100, 49, 44, 40, 104, 92, 120, 100, 51, 39]"
  by (simp add: second_event_def encode_def str_int_def str_nat.simps digit_chars_def bytes_repr_def repr_byte_def hex_byte_def
        of_char_char_of norm8)

lemma second_reference_words:
  "be32 (pad [49, 109, 111, 118, 101, 123, 125, 98, 39, 92, 120, 99, 102, 92, 120, 48,
             54, 92, 120, 57, 102, 92, 120, 98, 56, 90, 92, 120, 102, 52, 92, 120,
             56, 101, 58, 54, 120, 110, 44, 92, 120, 101, 53, 105, 100, 87, 78, 91,
             92, 120, 48, 98, 92, 120, 56, 98, 92, 120, 101, 102, 92, 120, 97, 56,
             92, 120, 49, 51, 92, 120, 101, 57, 92, 120, 99, 54, 74, 92, 120, 49,
             102, 92, 120, 100, 49, 44, 40, 104, 92, 120, 100, 51, 39]) =
     [829255542, 1702591842, 660371555, 1717336112, 912029753, 1717336162,
     945446008, 1714707576, 946158134, 2020486236, 2019898729, 1683443291,
     1551380578, 1551382626, 1551394150, 1551393080, 1551380787, 1551394105,
     1551393590, 1247574065, 1717336164, 824977512, 1551393843, 662700032,
     0, 0, 0, 0, 0, 0,
     0, 744]"
  by (simp add: pad_def bytes_of_u64_def replicate_num)

lemma second_reference_block1:
  "compress H256
     [829255542, 1702591842, 660371555, 1717336112, 912029753, 1717336162,
     945446008, 1714707576, 946158134, 2020486236, 2019898729, 1683443291,
     1551380578, 1551382626, 1551394150, 1551393080] =
     [2998820532, 3630725469, 2348972805, 1587456272,
     2881201637, 58662111, 1942216847, 1770225563]"
  by (simp add: sha_eval compress_def K256_def H256_def
        del: schedule.simps rounds.simps drop_bit_word_numeral)

lemma second_reference_block2:
  "compress [2998820532, 3630725469, 2348972805, 1587456272,
             2881201637, 58662111, 1942216847, 1770225563]
     [1551380787, 1551394105, 1551393590, 1247574065, 1717336164, 824977512,
     1551393843, 662700032, 0, 0, 0, 0,
     0, 0, 0, 744] =
     [2000581559, 1028811794, 3627450864, 2787703527,
     311045434, 3693997355, 4117063630, 3167264198]"
  by (simp add: sha_eval compress_def K256_def H256_def
        del: schedule.simps rounds.simps drop_bit_word_numeral)

lemma second_reference_sha256:
  "sha256 [49, 109, 111, 118, 101, 123, 125, 98, 39, 92, 120, 99, 102, 92, 120, 48,
          54, 92, 120, 57, 102, 92, 120, 98, 56, 90, 92, 120, 102, 52, 92, 120,
          56, 101, 58, 54, 120, 110, 44, 92, 120, 101, 53, 105, 100, 87, 78, 91,
          92, 120, 48, 98, 92, 120, 56, 98, 92, 120, 101, 102, 92, 120, 97, 56,
          92, 120, 49, 51, 92, 120, 101, 57, 92, 120, 99, 54, 74, 92, 120, 49,
          102, 92, 120, 100, 49, 44, 40, 104, 92, 120, 100, 51, 39] =
     [119, 62, 115, 183, 61, 82, 108, 18, 216, 54, 129, 240, 166, 40, 250, 231,
     18, 138, 45, 58, 220, 45, 237, 43, 245, 101, 103, 206, 188, 200, 157, 198]"
  by (simp add: sha256_def second_reference_words blocks_numeral blocks_1 second_reference_block1 second_reference_block2
        bytes_of_u32_def shr_eval norm8 del: drop_bit_word_numeral)

lemma first_entry_hex:
  "hex [207, 6, 159, 184, 90, 244, 142, 58, 54, 120, 110, 44, 229, 105, 100, 87,
      78, 91, 11, 139, 239, 168, 19, 233, 198, 74, 31, 209, 44, 40, 104, 211] =
     ''cf069fb85af48e3a36786e2ce56964574e5b0b8befa813e9c64a1fd12c2868d3''"
  by (simp add: hex_def hex_byte_def digit_chars_def)

lemma second_entry_hex:
  "hex [184, 201, 156, 126, 158, 145, 201, 135, 139, 72, 25, 112, 163, 82, 228, 178,
      106, 71, 195, 252, 252, 251, 173, 84, 62, 209, 224, 88, 124, 2, 204, 36] =
     ''b8c99c7e9e91c9878b481970a352e4b26a47c3fcfcfbad543ed1e0587c02cc24''"
  by (simp add: hex_def hex_byte_def digit_chars_def)

lemma second_reference_hex:
  "hex [119, 62, 115, 183, 61, 82, 108, 18, 216, 54, 129, 240, 166, 40, 250, 231,
      18, 138, 45, 58, 220, 45, 237, 43, 245, 101, 103, 206, 188, 200, 157, 198] =
     ''773e73b73d526c12d83681f0a628fae7128a2d3adc2ded2bf56567cebcc89dc6''"
  by (simp add: hex_def hex_byte_def digit_chars_def)

lemma first_entry_value:
  "entry_at [93, 177, 254, 228, 181, 112, 56, 8, 196, 128, 120, 167, 103, 104, 177, 85,
           180, 33, 178, 16, 192, 118, 28, 214, 165, 210, 35, 244, 217, 159, 30, 170] first_event =
     (0, ''cf069fb85af48e3a36786e2ce56964574e5b0b8befa813e9c64a1fd12c2868d3'')"
proof -
  have "entry_at [93, 177, 254, 228, 181, 112, 56, 8, 196, 128, 120, 167, 103, 104, 177, 85,
           180, 33, 178, 16, 192, 118, 28, 214, 165, 210, 35, 244, 217, 159, 30, 170] first_event =
        (tick first_event, hex (sha256 (encode (str_int (tick first_event) @ event_type first_event @ payload first_event @ bytes_repr
     [93, 177, 254, 228, 181, 112, 56, 8, 196, 128, 120, 167, 103, 104, 177, 85,
     180, 33, 178, 16, 192, 118, 28, 214, 165, 210, 35, 244, 217, 159, 30, 170]))))"
    by (simp only: entry_at_def)
  also have "\<dots> = (tick first_event, hex (sha256 [48, 115, 112, 97, 119, 110, 123, 125, 98, 39, 93, 92, 120, 98, 49, 92,
        120, 102, 101, 92, 120, 101, 52, 92, 120, 98, 53, 112, 56, 92, 120, 48,
        56, 92, 120, 99, 52, 92, 120, 56, 48, 120, 92, 120, 97, 55, 103, 104,
        92, 120, 98, 49, 85, 92, 120, 98, 52, 33, 92, 120, 98, 50, 92, 120,
        49, 48, 92, 120, 99, 48, 118, 92, 120, 49, 99, 92, 120, 100, 54, 92,
        120, 97, 53, 92, 120, 100, 50, 35, 92, 120, 102, 52, 92, 120, 100, 57,
        92, 120, 57, 102, 92, 120, 49, 101, 92, 120, 97, 97, 39]))"
    by (simp only: first_message)
  also have "\<dots> = (tick first_event, hex [207, 6, 159, 184, 90, 244, 142, 58, 54, 120, 110, 44, 229, 105, 100, 87,
        78, 91, 11, 139, 239, 168, 19, 233, 198, 74, 31, 209, 44, 40, 104, 211])"
    by (simp only: first_entry_sha256)
  also have "\<dots> = (tick first_event, ''cf069fb85af48e3a36786e2ce56964574e5b0b8befa813e9c64a1fd12c2868d3'')"
    by (simp only: first_entry_hex)
  also have "\<dots> = (0, ''cf069fb85af48e3a36786e2ce56964574e5b0b8befa813e9c64a1fd12c2868d3'')"
    by (simp add: first_event_def)
  finally show ?thesis .
qed

lemma second_entry_value:
  "entry_at [157, 85, 226, 68, 213, 42, 96, 45, 112, 188, 235, 142, 75, 188, 115, 98,
           121, 53, 9, 240, 43, 244, 246, 232, 154, 2, 74, 94, 225, 74, 120, 173] second_event =
     (1, ''b8c99c7e9e91c9878b481970a352e4b26a47c3fcfcfbad543ed1e0587c02cc24'')"
proof -
  have "entry_at [157, 85, 226, 68, 213, 42, 96, 45, 112, 188, 235, 142, 75, 188, 115, 98,
           121, 53, 9, 240, 43, 244, 246, 232, 154, 2, 74, 94, 225, 74, 120, 173] second_event =
        (tick second_event, hex (sha256 (encode (str_int (tick second_event) @ event_type second_event @ payload second_event @ bytes_repr
     [157, 85, 226, 68, 213, 42, 96, 45, 112, 188, 235, 142, 75, 188, 115, 98,
     121, 53, 9, 240, 43, 244, 246, 232, 154, 2, 74, 94, 225, 74, 120, 173]))))"
    by (simp only: entry_at_def)
  also have "\<dots> = (tick second_event, hex (sha256 [49, 109, 111, 118, 101, 123, 125, 98, 39, 92, 120, 57, 100, 85, 92, 120,
        101, 50, 68, 92, 120, 100, 53, 42, 96, 45, 112, 92, 120, 98, 99, 92,
        120, 101, 98, 92, 120, 56, 101, 75, 92, 120, 98, 99, 115, 98, 121, 53,
        92, 116, 92, 120, 102, 48, 43, 92, 120, 102, 52, 92, 120, 102, 54, 92,
        120, 101, 56, 92, 120, 57, 97, 92, 120, 48, 50, 74, 94, 92, 120, 101,
        49, 74, 120, 92, 120, 97, 100, 39]))"
    by (simp only: second_message)
  also have "\<dots> = (tick second_event, hex [184, 201, 156, 126, 158, 145, 201, 135, 139, 72, 25, 112, 163, 82, 228, 178,
        106, 71, 195, 252, 252, 251, 173, 84, 62, 209, 224, 88, 124, 2, 204, 36])"
    by (simp only: second_entry_sha256)
  also have "\<dots> = (tick second_event, ''b8c99c7e9e91c9878b481970a352e4b26a47c3fcfcfbad543ed1e0587c02cc24'')"
    by (simp only: second_entry_hex)
  also have "\<dots> = (1, ''b8c99c7e9e91c9878b481970a352e4b26a47c3fcfcfbad543ed1e0587c02cc24'')"
    by (simp add: second_event_def)
  finally show ?thesis .
qed

lemma second_reference_value:
  "entry_at [207, 6, 159, 184, 90, 244, 142, 58, 54, 120, 110, 44, 229, 105, 100, 87,
           78, 91, 11, 139, 239, 168, 19, 233, 198, 74, 31, 209, 44, 40, 104, 211] second_event =
     (1, ''773e73b73d526c12d83681f0a628fae7128a2d3adc2ded2bf56567cebcc89dc6'')"
proof -
  have "entry_at [207, 6, 159, 184, 90, 244, 142, 58, 54, 120, 110, 44, 229, 105, 100, 87,
           78, 91, 11, 139, 239, 168, 19, 233, 198, 74, 31, 209, 44, 40, 104, 211] second_event =
        (tick second_event, hex (sha256 (encode (str_int (tick second_event) @ event_type second_event @ payload second_event @ bytes_repr
     [207, 6, 159, 184, 90, 244, 142, 58, 54, 120, 110, 44, 229, 105, 100, 87,
     78, 91, 11, 139, 239, 168, 19, 233, 198, 74, 31, 209, 44, 40, 104, 211]))))"
    by (simp only: entry_at_def)
  also have "\<dots> = (tick second_event, hex (sha256 [49, 109, 111, 118, 101, 123, 125, 98, 39, 92, 120, 99, 102, 92, 120, 48,
        54, 92, 120, 57, 102, 92, 120, 98, 56, 90, 92, 120, 102, 52, 92, 120,
        56, 101, 58, 54, 120, 110, 44, 92, 120, 101, 53, 105, 100, 87, 78, 91,
        92, 120, 48, 98, 92, 120, 56, 98, 92, 120, 101, 102, 92, 120, 97, 56,
        92, 120, 49, 51, 92, 120, 101, 57, 92, 120, 99, 54, 74, 92, 120, 49,
        102, 92, 120, 100, 49, 44, 40, 104, 92, 120, 100, 51, 39]))"
    by (simp only: second_reference_message)
  also have "\<dots> = (tick second_event, hex [119, 62, 115, 183, 61, 82, 108, 18, 216, 54, 129, 240, 166, 40, 250, 231,
        18, 138, 45, 58, 220, 45, 237, 43, 245, 101, 103, 206, 188, 200, 157, 198])"
    by (simp only: second_reference_sha256)
  also have "\<dots> = (tick second_event, ''773e73b73d526c12d83681f0a628fae7128a2d3adc2ded2bf56567cebcc89dc6'')"
    by (simp only: second_reference_hex)
  also have "\<dots> = (1, ''773e73b73d526c12d83681f0a628fae7128a2d3adc2ded2bf56567cebcc89dc6'')"
    by (simp add: second_event_def)
  finally show ?thesis .
qed

lemma seed_state_value: "sha256 (encode (str_int (seed auditor0))) = [93, 177, 254, 228, 181, 112, 56, 8, 196, 128, 120, 167, 103, 104, 177, 85,
     180, 33, 178, 16, 192, 118, 28, 214, 165, 210, 35, 244, 217, 159, 30, 170]"
  by (simp only: seed_message seed_state_sha256)

lemma next_state_value:
  "sha256 ([93, 177, 254, 228, 181, 112, 56, 8, 196, 128, 120, 167, 103, 104, 177, 85,
          180, 33, 178, 16, 192, 118, 28, 214, 165, 210, 35, 244, 217, 159, 30, 170] @ encode ''tick'') =
     [157, 85, 226, 68, 213, 42, 96, 45, 112, 188, 235, 142, 75, 188, 115, 98,
     121, 53, 9, 240, 43, 244, 246, 232, 154, 2, 74, 94, 225, 74, 120, 173]"
  by (simp only: next_message next_state_sha256)

lemma replay_two:
  "replay_deterministically a [e1, e2] =
     [entry_at (sha256 (encode (str_int (seed a)))) e1,
      entry_at (sha256 (sha256 (encode (str_int (seed a))) @ encode ''tick'')) e2]"
  by (simp add: replay_entries upt_rec)

lemma reference_two:
  "reference_trajectory s [e1, e2] =
     [entry_at (sha256 (encode (str_int s))) e1,
      entry_at (sha256 (encode (str_int (tick e1) @ event_type e1 @ payload e1
                                 @ bytes_repr (sha256 (encode (str_int s)))))) e2]"
  by (simp add: reference_trajectory_def entry_at_def Let_def)

lemma replay_first_two:
  "replay_deterministically auditor0 [first_event, second_event] =
     [(0, ''cf069fb85af48e3a36786e2ce56964574e5b0b8befa813e9c64a1fd12c2868d3''),
      (1, ''b8c99c7e9e91c9878b481970a352e4b26a47c3fcfcfbad543ed1e0587c02cc24'')]"
  by (simp only: replay_two seed_state_value next_state_value first_entry_value
        second_entry_value)

lemma reference_first_two:
  "reference_trajectory (seed auditor0) [first_event, second_event] =
     [(0, ''cf069fb85af48e3a36786e2ce56964574e5b0b8befa813e9c64a1fd12c2868d3''),
      (1, ''773e73b73d526c12d83681f0a628fae7128a2d3adc2ded2bf56567cebcc89dc6'')]"
  by (simp only: reference_two seed_state_value first_message first_entry_sha256
        first_entry_value second_reference_value)

text \<open>
  The claim as stated fails at the second event: the builder hashes it with the advanced
  random state, the recurrence of the specification with the digest of the first event.
\<close>

theorem reference_recurrence_counterexample:
  "replay_deterministically auditor0 [first_event, second_event] =
     [(0, ''cf069fb85af48e3a36786e2ce56964574e5b0b8befa813e9c64a1fd12c2868d3''),
      (1, ''b8c99c7e9e91c9878b481970a352e4b26a47c3fcfcfbad543ed1e0587c02cc24'')] \<and>
   reference_trajectory (seed auditor0) [first_event, second_event] =
     [(0, ''cf069fb85af48e3a36786e2ce56964574e5b0b8befa813e9c64a1fd12c2868d3''),
      (1, ''773e73b73d526c12d83681f0a628fae7128a2d3adc2ded2bf56567cebcc89dc6'')] \<and>
   replay_deterministically auditor0 [first_event, second_event] \<noteq>
     reference_trajectory (seed auditor0) [first_event, second_event]"
  by (simp add: replay_first_two reference_first_two)

end
